theory Spec2Isabelle
  imports Main
begin

section \<open>Values thrown, options and the observable world\<close>

text \<open>
  The conversion layer of the CLI (\<^verbatim>\<open>packages/cli/src/conversion.ts\<close>) is asynchronous
  TypeScript in which every \<^verbatim>\<open>await\<close> is sequential, so the model threads an explicit
  world through the calls and returns it together with the outcome. A JavaScript
  \<^verbatim>\<open>throw\<close> is a value: either an \<^verbatim>\<open>Error\<close> instance with its message, or any
  other value, of which the code only ever uses \<^verbatim>\<open>String(error)\<close>.
  Strings are lists of characters; the line feed is \<open>CHR 0x0A\<close>.
\<close>

datatype thrown = ErrorObj string | NonError string

text \<open>\<^verbatim>\<open>error instanceof Error ? error.message : String(error)\<close>\<close>

fun error_text :: "thrown \<Rightarrow> string" where
  "error_text (ErrorObj message) = message"
| "error_text (NonError rendered) = rendered"

text \<open>
  A TypeScript \<^verbatim>\<open>number\<close> used as an option: either an integer, or anything else
  (a fraction, \<^verbatim>\<open>NaN\<close>, an infinity).
\<close>

datatype js_number = Whole int | NotWhole

text \<open>
  The JSON-compatible value tree exchanged between \<^verbatim>\<open>JSON.parse\<close>, the codec and
  \<^verbatim>\<open>JSON.stringify\<close>. Objects keep their insertion order, so they are association
  lists. No function of this theory inspects a number, so the representation of numbers
  is a type parameter.
\<close>

datatype 'n Value =
    Null
  | Bool bool
  | Number 'n
  | String string
  | Array "'n Value list"
  | Object "(string \<times> 'n Value) list"

text \<open>
  The options of the codec. \<^verbatim>\<open>keyFolding\<close> is off or a folding mode; \<^verbatim>\<open>flattenDepth\<close>
  counts chained levels and is unbounded when absent. Optional fields are options.
\<close>

datatype KeyFolding = Off | Folding

record EncodeOptions =
  delimiter :: string
  indent :: js_number
  keyFolding :: "KeyFolding option"
  flattenDepth :: "nat option"

record DecodeOptions =
  indent :: js_number
  strict :: bool
  expandPaths :: "bool option"

text \<open>
  Modelled from the spec: the type \<^verbatim>\<open>InputSource\<close> of \<^verbatim>\<open>./types\<close> is not among the
  sources; the CLI contract reads a positional input path, or standard input when the
  path is omitted. The conversion functions only pass it on.
\<close>

datatype InputSource = Stdin | FilePath string

text \<open>The argument objects of \<^verbatim>\<open>encodeToToon\<close> and \<^verbatim>\<open>decodeToJson\<close>.\<close>

record EncodeConfig =
  input :: InputSource
  "output" :: "string option"
  indent :: js_number
  delimiter :: string
  keyFolding :: "KeyFolding option"
  flattenDepth :: "nat option"
  printStats :: bool

record DecodeConfig =
  input :: InputSource
  "output" :: "string option"
  indent :: js_number
  strict :: bool
  expandPaths :: "bool option"

text \<open>
  What the logger \<^verbatim>\<open>consola\<close> is told. The messages are kept structured: the source
  renders them with template literals (and the saved share with floating-point
  \<^verbatim>\<open>toFixed\<close>), which no property below depends on.
\<close>

datatype diagnostic =
    Encoded string string
  | Decoded string string
  | TokenEstimates nat nat
  | Saved int nat

text \<open>
  The world: the contents of the files, the bytes written to standard output so far,
  the logger's messages, and the paths that cannot be opened for writing together with
  the error that opening them throws. A write to an open file handle is taken to succeed.
\<close>

record world =
  files :: "string \<Rightarrow> string option"
  stdout :: string
  diagnostics :: "diagnostic list"
  open_failure :: "string \<Rightarrow> thrown option"

text \<open>\<^verbatim>\<open>fsp.open(path, 'w')\<close> creates or truncates the file.\<close>

definition fsp_open_w :: "string \<Rightarrow> world \<Rightarrow> thrown + world" where
  "fsp_open_w path w =
     (case open_failure w path of
        Some e \<Rightarrow> Inl e
      | None \<Rightarrow> Inr (w\<lparr>files := (files w)(path \<mapsto> [])\<rparr>))"

text \<open>\<^verbatim>\<open>fileHandle.write(chunk)\<close> appends at the handle's position, the end of the file.\<close>

definition fileHandle_write :: "string \<Rightarrow> string \<Rightarrow> world \<Rightarrow> world" where
  "fileHandle_write path chunk w =
     w\<lparr>files := (files w)(path \<mapsto>
        (case files w path of None \<Rightarrow> chunk | Some written \<Rightarrow> written @ chunk))\<rparr>"

definition fsp_writeFile :: "string \<Rightarrow> string \<Rightarrow> world \<Rightarrow> thrown + world" where
  "fsp_writeFile path content w =
     (case open_failure w path of
        Some e \<Rightarrow> Inl e
      | None \<Rightarrow> Inr (w\<lparr>files := (files w)(path \<mapsto> content)\<rparr>))"

definition stdout_write :: "string \<Rightarrow> world \<Rightarrow> world" where
  "stdout_write chunk w = w\<lparr>stdout := stdout w @ chunk\<rparr>"

text \<open>\<^verbatim>\<open>console.log(s)\<close> prints \<open>s\<close> and a line feed on standard output.\<close>

definition console_log :: "string \<Rightarrow> world \<Rightarrow> world" where
  "console_log s w = stdout_write (s @ [CHR 0x0A]) w"

definition consola_report :: "diagnostic \<Rightarrow> world \<Rightarrow> world" where
  "consola_report m w = w\<lparr>diagnostics := diagnostics w @ [m]\<rparr>"

text \<open>
  \<^verbatim>\<open>if (outputPath)\<close>: an optional string is truthy when it is present and not empty.
\<close>

fun truthy_path :: "string option \<Rightarrow> string option" where
  "truthy_path None = None"
| "truthy_path (Some path) = (if path = [] then None else Some path)"

section \<open>The collaborators that are imported\<close>

text \<open>
  An \<^verbatim>\<open>Iterable<string>\<close> consumed once by \<^verbatim>\<open>for ... of\<close>: the lines it yields, and
  then either its end (\<open>None\<close>) or the value it throws instead of a further line. An
  iterable that never ends is outside the model.
\<close>

type_synonym line_source = "string list \<times> thrown option"

text \<open>
  The codec imported from \<^verbatim>\<open>../../toon/src\<close>, whose code is not among the sources,
  is a parameter of the conversion functions; each entry point may throw.
\<close>

record 'n codec =
  encode :: "'n Value \<Rightarrow> EncodeOptions \<Rightarrow> thrown + string"
  encodeLines :: "'n Value \<Rightarrow> EncodeOptions \<Rightarrow> thrown + line_source"
  decode :: "string \<Rightarrow> DecodeOptions \<Rightarrow> thrown + 'n Value"

text \<open>
  The other functions the module imports: \<^verbatim>\<open>readInput\<close> and \<^verbatim>\<open>formatInputLabel\<close> of
  \<^verbatim>\<open>./utils\<close>, \<^verbatim>\<open>JSON.parse\<close>, \<^verbatim>\<open>JSON.stringify\<close>, \<^verbatim>\<open>estimateTokenCount\<close> and
  \<^verbatim>\<open>path.relative(process.cwd(), _)\<close>.
\<close>

record 'n collaborators =
  readInput :: "InputSource \<Rightarrow> world \<Rightarrow> thrown + string"
  formatInputLabel :: "InputSource \<Rightarrow> string"
  JSON_parse :: "string \<Rightarrow> thrown + 'n Value"
  JSON_stringify :: "'n Value \<Rightarrow> js_number \<Rightarrow> string"
  estimateTokenCount :: "string \<Rightarrow> nat"
  path_relative :: "string \<Rightarrow> string"

section \<open>\<^verbatim>\<open>writeStreamingToon\<close>\<close>

text \<open>
  The loop shared by both branches: before every line but the first a line feed is
  written, then the line; \<open>isFirst\<close> is the loop's flag and \<open>put\<close> the write.
\<close>

fun stream_lines :: "(string \<Rightarrow> world \<Rightarrow> world) \<Rightarrow> string list \<Rightarrow> bool \<Rightarrow> world \<Rightarrow> world" where
  "stream_lines put [] isFirst w = w"
| "stream_lines put (line # rest) isFirst w =
     stream_lines put rest False (put line (if \<not> isFirst then put [CHR 0x0A] w else w))"

text \<open>
  With a truthy path the file is opened first; if that throws, nothing was written and
  there is no handle to close. An exception of the iterable leaves what was written so
  far in the file (the \<^verbatim>\<open>finally\<close> block only closes the handle) and, on standard
  output, skips the final line feed.
\<close>

definition writeStreamingToon :: "line_source \<Rightarrow> string option \<Rightarrow> world \<Rightarrow> thrown option \<times> world" where
  "writeStreamingToon lines outputPath w =
     (case truthy_path outputPath of
        Some path \<Rightarrow>
          (case fsp_open_w path w of
             Inl e \<Rightarrow> (Some e, w)
           | Inr opened \<Rightarrow> (snd lines, stream_lines (fileHandle_write path) (fst lines) True opened))
      | None \<Rightarrow>
          (let streamed = stream_lines stdout_write (fst lines) True w in
           case snd lines of
             Some e \<Rightarrow> (Some e, streamed)
           | None \<Rightarrow> (None, stdout_write [CHR 0x0A] streamed)))"

section \<open>\<^verbatim>\<open>encodeToToon\<close> and \<^verbatim>\<open>decodeToJson\<close>\<close>

text \<open>The branch that prints statistics encodes to one string before it writes.\<close>

definition encode_with_stats ::
  "'n collaborators \<Rightarrow> 'n codec \<Rightarrow> EncodeConfig \<Rightarrow> string \<Rightarrow> 'n Value \<Rightarrow> EncodeOptions \<Rightarrow> world
     \<Rightarrow> thrown option \<times> world" where
  "encode_with_stats env toon config jsonContent data encodeOptions w =
     (case encode toon data encodeOptions of
        Inl e \<Rightarrow> (Some e, w)
      | Inr toonOutput \<Rightarrow>
          (case (case truthy_path (EncodeConfig.output config) of
                   Some path \<Rightarrow> fsp_writeFile path toonOutput w
                 | None \<Rightarrow> Inr (console_log toonOutput w)) of
             Inl e \<Rightarrow> (Some e, w)
           | Inr written \<Rightarrow>
               (let jsonTokens = estimateTokenCount env jsonContent;
                    toonTokens = estimateTokenCount env toonOutput;
                    diff = int jsonTokens - int toonTokens;
                    confirmed =
                      (case truthy_path (EncodeConfig.output config) of
                         Some path \<Rightarrow>
                           consola_report
                             (Encoded (formatInputLabel env (EncodeConfig.input config))
                                (path_relative env path)) written
                       | None \<Rightarrow> written)
                in (None,
                    consola_report (Saved diff jsonTokens)
                      (consola_report (TokenEstimates jsonTokens toonTokens)
                         (console_log [] confirmed))))))"

text \<open>
  The streaming branch: the argument \<^verbatim>\<open>encodeLines(data, encodeOptions)\<close> is evaluated
  before \<^verbatim>\<open>writeStreamingToon\<close> is entered.
\<close>

definition encode_streaming ::
  "'n collaborators \<Rightarrow> 'n codec \<Rightarrow> EncodeConfig \<Rightarrow> 'n Value \<Rightarrow> EncodeOptions \<Rightarrow> world
     \<Rightarrow> thrown option \<times> world" where
  "encode_streaming env toon config data encodeOptions w =
     (case encodeLines toon data encodeOptions of
        Inl e \<Rightarrow> (Some e, w)
      | Inr lines \<Rightarrow>
          (case writeStreamingToon lines (EncodeConfig.output config) w of
             (Some e, w') \<Rightarrow> (Some e, w')
           | (None, w') \<Rightarrow>
               (None,
                case truthy_path (EncodeConfig.output config) of
                  Some path \<Rightarrow>
                    consola_report
                      (Encoded (formatInputLabel env (EncodeConfig.input config))
                         (path_relative env path)) w'
                | None \<Rightarrow> w')))"

text \<open>The options object that \<^verbatim>\<open>encodeToToon\<close> builds from its configuration.\<close>

definition encodeOptions_of :: "EncodeConfig \<Rightarrow> EncodeOptions" where
  "encodeOptions_of config =
     \<lparr> EncodeOptions.delimiter = EncodeConfig.delimiter config,
       EncodeOptions.indent = EncodeConfig.indent config,
       EncodeOptions.keyFolding = EncodeConfig.keyFolding config,
       EncodeOptions.flattenDepth = EncodeConfig.flattenDepth config \<rparr>"

definition encodeToToon ::
  "'n collaborators \<Rightarrow> 'n codec \<Rightarrow> EncodeConfig \<Rightarrow> world \<Rightarrow> thrown option \<times> world" where
  "encodeToToon env toon config w =
     (case readInput env (EncodeConfig.input config) w of
        Inl e \<Rightarrow> (Some e, w)
      | Inr jsonContent \<Rightarrow>
          (case JSON_parse env jsonContent of
             Inl error \<Rightarrow> (Some (ErrorObj (''Failed to parse JSON: '' @ error_text error)), w)
           | Inr data \<Rightarrow>
               (let encodeOptions = encodeOptions_of config
                in if printStats config
                   then encode_with_stats env toon config jsonContent data encodeOptions w
                   else encode_streaming env toon config data encodeOptions w)))"

definition decodeToJson ::
  "'n collaborators \<Rightarrow> 'n codec \<Rightarrow> DecodeConfig \<Rightarrow> world \<Rightarrow> thrown option \<times> world" where
  "decodeToJson env toon config w =
     (case readInput env (DecodeConfig.input config) w of
        Inl e \<Rightarrow> (Some e, w)
      | Inr toonContent \<Rightarrow>
          (case decode toon toonContent
                  \<lparr> DecodeOptions.indent = DecodeConfig.indent config,
                    DecodeOptions.strict = DecodeConfig.strict config,
                    DecodeOptions.expandPaths = DecodeConfig.expandPaths config \<rparr> of
             Inl error \<Rightarrow> (Some (ErrorObj (''Failed to decode TOON: '' @ error_text error)), w)
           | Inr data \<Rightarrow>
               (let jsonOutput = JSON_stringify env data (DecodeConfig.indent config)
                in case truthy_path (DecodeConfig.output config) of
                     Some path \<Rightarrow>
                       (case fsp_writeFile path jsonOutput w of
                          Inl e \<Rightarrow> (Some e, w)
                        | Inr written \<Rightarrow>
                            (None,
                             consola_report
                               (Decoded (formatInputLabel env (DecodeConfig.input config))
                                  (path_relative env path)) written))
                   | None \<Rightarrow> (None, console_log jsonOutput w))))"

section \<open>Joined lines\<close>

text \<open>
  The lines of a text joined with the line separator, as \<^verbatim>\<open>lines.join('\n')\<close> does:
  one line feed between two consecutive lines, none after the last.
\<close>

fun join_lines :: "string list \<Rightarrow> string" where
  "join_lines [] = []"
| "join_lines [line] = line"
| "join_lines (line # rest) = line @ [CHR 0x0A] @ join_lines rest"

text \<open>The characters the streaming loop writes, given its flag on entry.\<close>

fun streamed_text :: "string list \<Rightarrow> bool \<Rightarrow> string" where
  "streamed_text [] isFirst = []"
| "streamed_text (line # rest) isFirst =
     (if isFirst then [] else [CHR 0x0A]) @ line @ streamed_text rest False"

section \<open>The encoder's validation of its options\<close>

text \<open>
  Modelled from the spec: the entry points \<^verbatim>\<open>encode\<close> and \<^verbatim>\<open>encodeLines\<close> of the codec
  (\<^verbatim>\<open>packages/toon/src\<close>, not among the sources), as far as the spec fixes them:
  \<^emph>\<open>Options are validated first: delimiter must be one of the closed set, indent must be a
  positive integer, otherwise the call fails before any line is produced.\<close> The closed set
  is comma, tab and pipe; the two error kinds are those of the spec's taxonomy. What the
  spec leaves open is a parameter: \<open>raise\<close> is the value thrown for an error kind, and
  \<open>emit\<close> the recursion that turns a value into its lines. The single-string result is
  the lines joined with the line separator; the streaming producer offers the same lines.
\<close>

datatype encode_error = InvalidDelimiter | InvalidIndent

definition delimiters :: "string set" where
  "delimiters = {'','', [CHR 0x09], ''|''}"

fun positive_integer :: "js_number \<Rightarrow> bool" where
  "positive_integer (Whole n) = (0 < n)"
| "positive_integer NotWhole = False"

definition validate_options :: "EncodeOptions \<Rightarrow> encode_error option" where
  "validate_options options =
     (if EncodeOptions.delimiter options \<notin> delimiters then Some InvalidDelimiter
      else if \<not> positive_integer (EncodeOptions.indent options) then Some InvalidIndent
      else None)"

definition spec_encode ::
  "(encode_error \<Rightarrow> thrown) \<Rightarrow> ('n Value \<Rightarrow> EncodeOptions \<Rightarrow> string list) \<Rightarrow>
     'n Value \<Rightarrow> EncodeOptions \<Rightarrow> thrown + string" where
  "spec_encode raise emit v options =
     (case validate_options options of
        Some e \<Rightarrow> Inl (raise e)
      | None \<Rightarrow> Inr (join_lines (emit v options)))"

definition spec_encodeLines ::
  "(encode_error \<Rightarrow> thrown) \<Rightarrow> ('n Value \<Rightarrow> EncodeOptions \<Rightarrow> string list) \<Rightarrow>
     'n Value \<Rightarrow> EncodeOptions \<Rightarrow> thrown + line_source" where
  "spec_encodeLines raise emit v options =
     (case validate_options options of
        Some e \<Rightarrow> Inl (raise e)
      | None \<Rightarrow> Inr (emit v options, None))"

definition spec_codec ::
  "(encode_error \<Rightarrow> thrown) \<Rightarrow> ('n Value \<Rightarrow> EncodeOptions \<Rightarrow> string list) \<Rightarrow>
     (string \<Rightarrow> DecodeOptions \<Rightarrow> thrown + 'n Value) \<Rightarrow> 'n codec" where
  "spec_codec raise emit dec =
     \<lparr> encode = spec_encode raise emit,
       encodeLines = spec_encodeLines raise emit,
       decode = dec \<rparr>"

section \<open>Concrete collaborators for the examples\<close>

definition empty_world :: world where
  "empty_world = \<lparr> files = (\<lambda>path. None), stdout = [], diagnostics = [],
                    open_failure = (\<lambda>path. None) \<rparr>"

text \<open>
  Collaborators that read the text \<open>content\<close> whatever the source, and a JSON parser
  that returns \<open>parsed\<close>.
\<close>

definition fixed_input :: "string \<Rightarrow> (thrown + 'n Value) \<Rightarrow> 'n collaborators" where
  "fixed_input content parsed =
     \<lparr> readInput = (\<lambda>source w. Inr content),
       formatInputLabel = (\<lambda>source. ''stdin''),
       JSON_parse = (\<lambda>text. parsed),
       JSON_stringify = (\<lambda>v n. ''null''),
       estimateTokenCount = length,
       path_relative = (\<lambda>path. path) \<rparr>"

text \<open>A codec whose decoder throws \<open>e\<close> and whose encoder yields the lines \<open>ls\<close>.\<close>

definition fixed_codec :: "string list \<Rightarrow> thrown \<Rightarrow> 'n codec" where
  "fixed_codec ls e =
     \<lparr> encode = (\<lambda>v options. Inr (join_lines ls)),
       encodeLines = (\<lambda>v options. Inr (ls, None)),
       decode = (\<lambda>text options. Inl e) \<rparr>"

definition error_named :: "encode_error \<Rightarrow> thrown" where
  "error_named e =
     (case e of
        InvalidDelimiter \<Rightarrow> ErrorObj ''Invalid delimiter''
      | InvalidIndent \<Rightarrow> ErrorObj ''Invalid indent value'')"

section \<open>What the streaming writer writes\<close>

lemma streamed_text_join: "streamed_text ls True = join_lines ls"
proof -
  have tail: "join_lines (l # ls) = l @ streamed_text ls False" for l ls
    by (induction ls arbitrary: l) simp_all
  show ?thesis by (cases ls) (simp_all add: tail)
qed

lemma stream_lines_stdout:
  "stream_lines stdout_write ls isFirst w = w\<lparr>stdout := stdout w @ streamed_text ls isFirst\<rparr>"
  by (induction ls arbitrary: isFirst w) (simp_all add: stdout_write_def)

lemma stream_lines_file:
  "files w path = Some written \<Longrightarrow>
   stream_lines (fileHandle_write path) ls isFirst w =
     w\<lparr>files := (files w)(path \<mapsto> written @ streamed_text ls isFirst)\<rparr>"
  by (induction ls arbitrary: isFirst w written) (simp_all add: fileHandle_write_def fun_upd_idem)

text \<open>
  Claim C10. \<^verbatim>\<open>writeStreamingToon\<close> puts exactly one line feed between consecutive
  lines. For an iterable that yields \<open>lines\<close> and ends, with a path that is present, not
  empty and can be opened, the file holds the joined lines and nothing after them, and
  nothing else of the world changes; without a path (or with the empty one) standard
  output receives the joined lines followed by one line feed.
\<close>

theorem writeStreamingToon_newlines:
  "(outputPath = Some path \<and> path \<noteq> [] \<and> open_failure w path = None \<longrightarrow>
      writeStreamingToon (lines, None) outputPath w =
        (None, w\<lparr>files := (files w)(path \<mapsto> join_lines lines)\<rparr>))
   \<and> (outputPath = None \<or> outputPath = Some [] \<longrightarrow>
      writeStreamingToon (lines, None) outputPath w =
        (None, w\<lparr>stdout := stdout w @ join_lines lines @ [CHR 0x0A]\<rparr>))"
  by (auto simp: writeStreamingToon_def fsp_open_w_def stream_lines_file stream_lines_stdout
      streamed_text_join stdout_write_def)

theorem writeStreamingToon_newlines_witness:
  "writeStreamingToon ([''a: 1'', ''b: 2''], None) (Some ''out.toon'') empty_world =
     (None, empty_world\<lparr>files := (files empty_world)(''out.toon'' \<mapsto> ''a: 1'' @ [CHR 0x0A] @ ''b: 2'')\<rparr>)
   \<and> writeStreamingToon ([''a: 1'', ''b: 2''], None) None empty_world =
     (None, empty_world\<lparr>stdout := ''a: 1'' @ [CHR 0x0A] @ ''b: 2'' @ [CHR 0x0A]\<rparr>)"
  using writeStreamingToon_newlines [of "Some ''out.toon''" "''out.toon''" empty_world "[''a: 1'', ''b: 2'']"]
    writeStreamingToon_newlines [of None "[]" empty_world "[''a: 1'', ''b: 2'']"]
  by (simp add: empty_world_def)

section \<open>Failures of the parser and of the decoder\<close>

text \<open>
  Claim C9. When the input was read and \<^verbatim>\<open>JSON.parse\<close> throws \<open>e\<close>, \<^verbatim>\<open>encodeToToon\<close>
  throws one \<^verbatim>\<open>Error\<close> whose message is \<^verbatim>\<open>Failed to parse JSON: \<close> followed by the
  text of \<open>e\<close>, and the world is the one it started in: nothing was written. Likewise
  when \<^verbatim>\<open>decode\<close> throws \<open>e\<close> on the options built from the configuration,
  \<^verbatim>\<open>decodeToJson\<close> throws one \<^verbatim>\<open>Error\<close> with \<^verbatim>\<open>Failed to decode TOON: \<close> followed by
  the text of \<open>e\<close>, in an unchanged world. The text of \<open>e\<close> is its message when \<open>e\<close> is
  an \<^verbatim>\<open>Error\<close>, and \<^verbatim>\<open>String(e)\<close> otherwise.
\<close>

theorem conversion_failure_wrapped:
  "(readInput env (EncodeConfig.input encodeConfig) w = Inr content \<and>
    JSON_parse env content = Inl e \<longrightarrow>
      encodeToToon env toon encodeConfig w =
        (Some (ErrorObj (''Failed to parse JSON: '' @ error_text e)), w))
   \<and> (readInput env (DecodeConfig.input decodeConfig) w = Inr content \<and>
       decode toon content
         \<lparr> DecodeOptions.indent = DecodeConfig.indent decodeConfig,
           DecodeOptions.strict = DecodeConfig.strict decodeConfig,
           DecodeOptions.expandPaths = DecodeConfig.expandPaths decodeConfig \<rparr> = Inl e \<longrightarrow>
      decodeToJson env toon decodeConfig w =
        (Some (ErrorObj (''Failed to decode TOON: '' @ error_text e)), w))"
  by (simp add: encodeToToon_def decodeToJson_def)

theorem conversion_failure_wrapped_witness:
  "encodeToToon (fixed_input ''{ invalid json }'' (Inl (ErrorObj ''Unexpected token i'')))
      (fixed_codec [] (ErrorObj ''Unterminated string''))
      \<lparr> EncodeConfig.input = Stdin, output = Some ''out.toon'', indent = Whole 2,
        delimiter = '','', keyFolding = None, flattenDepth = None, printStats = False \<rparr>
      empty_world =
     (Some (ErrorObj ''Failed to parse JSON: Unexpected token i''), empty_world)
   \<and> decodeToJson (fixed_input ''key: x'' (Inr (Null :: unit Value)))
      (fixed_codec [] (ErrorObj ''Unterminated string''))
      \<lparr> DecodeConfig.input = Stdin, output = Some ''out.json'', indent = Whole 2,
        strict = True, expandPaths = None \<rparr>
      empty_world =
     (Some (ErrorObj ''Failed to decode TOON: Unterminated string''), empty_world)"
  using conversion_failure_wrapped
    [where env = "fixed_input ''{ invalid json }'' (Inl (ErrorObj ''Unexpected token i''))"
       and toon = "fixed_codec [] (ErrorObj ''Unterminated string'')"
       and encodeConfig =
         "\<lparr> EncodeConfig.input = Stdin, output = Some ''out.toon'', indent = Whole 2,
            delimiter = '','', keyFolding = None, flattenDepth = None, printStats = False \<rparr>"
       and w = empty_world and content = "''{ invalid json }''"
       and e = "ErrorObj ''Unexpected token i''"]
    conversion_failure_wrapped
    [where env = "fixed_input ''key: x'' (Inr (Null :: unit Value))"
       and toon = "fixed_codec [] (ErrorObj ''Unterminated string'')"
       and decodeConfig =
         "\<lparr> DecodeConfig.input = Stdin, output = Some ''out.json'', indent = Whole 2,
            strict = True, expandPaths = None \<rparr>"
       and w = empty_world and content = "''key: x''"
       and e = "ErrorObj ''Unterminated string''"]
  by (simp add: fixed_input_def fixed_codec_def)

section \<open>Invalid options\<close>

text \<open>
  Claim C6. Against the validation modelled from the spec: when the delimiter is not
  one of comma, tab and pipe, or the indent is not a positive integer, \<^verbatim>\<open>encode\<close> fails
  with a validation error and yields no text, \<^verbatim>\<open>encodeLines\<close> fails with the same error
  and yields no line source, and a call of \<^verbatim>\<open>encodeToToon\<close> that builds these options
  (its input read and parsed) throws that error in the world it started in: whether it
  would stream or print statistics, to a file or to standard output, nothing was opened
  or written.
\<close>

theorem invalid_options_fail_before_output:
  "EncodeOptions.delimiter options \<notin> delimiters
     \<or> \<not> positive_integer (EncodeOptions.indent options) \<Longrightarrow>
   \<exists>e. spec_encode raise emit v options = Inl (raise e)
      \<and> spec_encodeLines raise emit v options = Inl (raise e)
      \<and> (\<forall>config. encodeOptions_of config = options
             \<and> readInput env (EncodeConfig.input config) w = Inr content
             \<and> JSON_parse env content = Inr v \<longrightarrow>
           encodeToToon env (spec_codec raise emit dec) config w = (Some (raise e), w))"
proof -
  assume "EncodeOptions.delimiter options \<notin> delimiters
     \<or> \<not> positive_integer (EncodeOptions.indent options)"
  then have "validate_options options \<noteq> None"
    by (auto simp: validate_options_def)
  then obtain e where e: "validate_options options = Some e"
    by blast
  have "spec_encode raise emit v options = Inl (raise e)"
    and "spec_encodeLines raise emit v options = Inl (raise e)"
    using e by (simp_all add: spec_encode_def spec_encodeLines_def)
  moreover have "encodeToToon env (spec_codec raise emit dec) config w = (Some (raise e), w)"
    if "encodeOptions_of config = options"
      and "readInput env (EncodeConfig.input config) w = Inr content"
      and "JSON_parse env content = Inr v" for config
    using that e
    by (simp add: encodeToToon_def encode_with_stats_def encode_streaming_def spec_codec_def
        spec_encode_def spec_encodeLines_def)
  ultimately show ?thesis by blast
qed

theorem invalid_options_fail_before_output_witness:
  "spec_encode error_named (\<lambda>v options. [''value: 1'']) (Null :: unit Value)
      \<lparr> EncodeOptions.delimiter = '';'', indent = Whole 2, keyFolding = None, flattenDepth = None \<rparr>
     = Inl (ErrorObj ''Invalid delimiter'')
   \<and> spec_encodeLines error_named (\<lambda>v options. [''value: 1'']) (Null :: unit Value)
      \<lparr> EncodeOptions.delimiter = '','', indent = NotWhole, keyFolding = None, flattenDepth = None \<rparr>
     = Inl (ErrorObj ''Invalid indent value'')
   \<and> encodeToToon (fixed_input ''null'' (Inr (Null :: unit Value)))
        (spec_codec error_named (\<lambda>v options. [''value: 1'']) (\<lambda>text options. Inr Null))
        \<lparr> EncodeConfig.input = FilePath ''input.json'', output = Some ''out.toon'', indent = Whole 0,
          delimiter = '','', keyFolding = None, flattenDepth = None, printStats = False \<rparr>
        empty_world
     = (Some (ErrorObj ''Invalid indent value''), empty_world)"
  using invalid_options_fail_before_output
    [where options = "\<lparr> EncodeOptions.delimiter = '';'', indent = Whole 2, keyFolding = None, flattenDepth = None \<rparr>"
       and raise = error_named and emit = "\<lambda>v options. [''value: 1'']" and v = "Null :: unit Value"]
    invalid_options_fail_before_output
    [where options = "\<lparr> EncodeOptions.delimiter = '','', indent = NotWhole, keyFolding = None, flattenDepth = None \<rparr>"
       and raise = error_named and emit = "\<lambda>v options. [''value: 1'']" and v = "Null :: unit Value"]
    invalid_options_fail_before_output
    [where options = "\<lparr> EncodeOptions.delimiter = '','', indent = Whole 0, keyFolding = None, flattenDepth = None \<rparr>"
       and raise = error_named and emit = "\<lambda>v options. [''value: 1'']" and v = "Null :: unit Value"
       and env = "fixed_input ''null'' (Inr (Null :: unit Value))" and w = empty_world
       and content = "''null''" and dec = "\<lambda>text options. Inr Null"]
  by (simp add: spec_encode_def spec_encodeLines_def validate_options_def delimiters_def
      error_named_def encodeToToon_def encode_streaming_def spec_codec_def fixed_input_def
      encodeOptions_of_def)

section \<open>The streamed lines and the encoded string\<close>

lemma streaming_file_contents:
  "truthy_path out = Some path \<Longrightarrow> open_failure w path = None \<Longrightarrow>
   writeStreamingToon (ls, None) out w = (None, w\<lparr>files := (files w)(path \<mapsto> join_lines ls)\<rparr>)"
  by (simp add: writeStreamingToon_def fsp_open_w_def stream_lines_file streamed_text_join)

text \<open>
  Claim C2. Against the entry points modelled from the spec: for every value and all
  valid options (delimiter in the closed set, indent a positive integer), the line
  source of \<^verbatim>\<open>encodeLines\<close> yields its lines and ends, \<^verbatim>\<open>encode\<close> returns a string, and
  the lines joined with the line separator are that string. On the code this is what
  the output shows: a call of \<^verbatim>\<open>encodeToToon\<close> that builds these options and writes to
  a path that opens leaves exactly the encoder's string in the file, whether it streams
  or prints statistics, and when it streams to standard output it appends that string
  and one line feed.
\<close>

theorem streamed_lines_join_to_encode:
  assumes "EncodeOptions.delimiter options \<in> delimiters"
    and "positive_integer (EncodeOptions.indent options)"
  shows "\<exists>ls toonOutput.
      spec_encodeLines raise emit v options = Inr (ls, None)
    \<and> spec_encode raise emit v options = Inr toonOutput
    \<and> join_lines ls = toonOutput
    \<and> (\<forall>config path.
          encodeOptions_of config = options
        \<and> truthy_path (EncodeConfig.output config) = Some path
        \<and> open_failure w path = None
        \<and> readInput env (EncodeConfig.input config) w = Inr content
        \<and> JSON_parse env content = Inr v \<longrightarrow>
          fst (encodeToToon env (spec_codec raise emit dec) config w) = None
        \<and> files (snd (encodeToToon env (spec_codec raise emit dec) config w)) path = Some toonOutput)
    \<and> (\<forall>config.
          encodeOptions_of config = options
        \<and> truthy_path (EncodeConfig.output config) = None
        \<and> \<not> printStats config
        \<and> readInput env (EncodeConfig.input config) w = Inr content
        \<and> JSON_parse env content = Inr v \<longrightarrow>
          fst (encodeToToon env (spec_codec raise emit dec) config w) = None
        \<and> stdout (snd (encodeToToon env (spec_codec raise emit dec) config w))
            = stdout w @ toonOutput @ [CHR 0x0A])"
proof -
  from assms have valid: "validate_options options = None"
    by (simp add: validate_options_def)
  let ?ls = "emit v options"
  have produced: "spec_encodeLines raise emit v options = Inr (?ls, None)"
    and encoded: "spec_encode raise emit v options = Inr (join_lines ?ls)"
    using valid by (simp_all add: spec_encodeLines_def spec_encode_def)
  have "fst (encodeToToon env (spec_codec raise emit dec) config w) = None
      \<and> files (snd (encodeToToon env (spec_codec raise emit dec) config w)) path = Some (join_lines ?ls)"
    if "encodeOptions_of config = options"
      and out: "truthy_path (EncodeConfig.output config) = Some path"
      and opens: "open_failure w path = None"
      and "readInput env (EncodeConfig.input config) w = Inr content"
      and "JSON_parse env content = Inr v" for config path
  proof (cases "printStats config")
    case True
    with that produced encoded show ?thesis
      by (simp add: encodeToToon_def encode_with_stats_def spec_codec_def fsp_writeFile_def
          consola_report_def console_log_def stdout_write_def Let_def)
  next
    case False
    with that produced encoded show ?thesis
      by (simp add: encodeToToon_def encode_streaming_def spec_codec_def
          streaming_file_contents [OF out opens] consola_report_def)
  qed
  moreover have "fst (encodeToToon env (spec_codec raise emit dec) config w) = None
      \<and> stdout (snd (encodeToToon env (spec_codec raise emit dec) config w))
          = stdout w @ join_lines ?ls @ [CHR 0x0A]"
    if "encodeOptions_of config = options"
      and "truthy_path (EncodeConfig.output config) = None"
      and "\<not> printStats config"
      and "readInput env (EncodeConfig.input config) w = Inr content"
      and "JSON_parse env content = Inr v" for config
    using that produced
    by (simp add: encodeToToon_def encode_streaming_def spec_codec_def writeStreamingToon_def
        stream_lines_stdout streamed_text_join stdout_write_def)
  ultimately show ?thesis using produced encoded by blast
qed

theorem streamed_lines_join_to_encode_witness:
  "spec_encodeLines error_named (\<lambda>v options. [''a: 1'', ''b: 2'']) (Null :: unit Value)
      \<lparr> EncodeOptions.delimiter = '','', indent = Whole 2, keyFolding = None, flattenDepth = None \<rparr>
     = Inr ([''a: 1'', ''b: 2''], None)
   \<and> spec_encode error_named (\<lambda>v options. [''a: 1'', ''b: 2'']) (Null :: unit Value)
      \<lparr> EncodeOptions.delimiter = '','', indent = Whole 2, keyFolding = None, flattenDepth = None \<rparr>
     = Inr (''a: 1'' @ [CHR 0x0A] @ ''b: 2'')
   \<and> files (snd (encodeToToon (fixed_input ''null'' (Inr (Null :: unit Value)))
        (spec_codec error_named (\<lambda>v options. [''a: 1'', ''b: 2'']) (\<lambda>text options. Inr Null))
        \<lparr> EncodeConfig.input = FilePath ''input.json'', output = Some ''out.toon'', indent = Whole 2,
          delimiter = '','', keyFolding = None, flattenDepth = None, printStats = False \<rparr>
        empty_world)) ''out.toon''
     = Some (''a: 1'' @ [CHR 0x0A] @ ''b: 2'')
   \<and> stdout (snd (encodeToToon (fixed_input ''null'' (Inr (Null :: unit Value)))
        (spec_codec error_named (\<lambda>v options. [''a: 1'', ''b: 2'']) (\<lambda>text options. Inr Null))
        \<lparr> EncodeConfig.input = Stdin, output = None, indent = Whole 2,
          delimiter = '','', keyFolding = None, flattenDepth = None, printStats = False \<rparr>
        empty_world))
     = ''a: 1'' @ [CHR 0x0A] @ ''b: 2'' @ [CHR 0x0A]"
  using streamed_lines_join_to_encode
    [where options = "\<lparr> EncodeOptions.delimiter = '','', indent = Whole 2, keyFolding = None, flattenDepth = None \<rparr>"
       and raise = error_named and emit = "\<lambda>v options. [''a: 1'', ''b: 2'']" and v = "Null :: unit Value"
       and env = "fixed_input ''null'' (Inr (Null :: unit Value))" and w = empty_world
       and content = "''null''" and dec = "\<lambda>text options. Inr Null"]
  by (simp add: spec_encode_def spec_encodeLines_def validate_options_def delimiters_def
      encodeOptions_of_def fixed_input_def empty_world_def)

end
